theory Spec2Isabelle
  imports Main "HOL-Library.Multiset"
begin

section \<open>The workout API: data\<close>

text \<open>
  The repository is an Express controller (\<^verbatim>\<open>controllers/workoutController.js\<close>) with five
  request handlers and the router that mounts them. Every handler makes one call to the
  Mongoose model \<^verbatim>\<open>Workout\<close> and answers with \<^verbatim>\<open>res.status(n).json(payload)\<close>.

  The handlers are \<^verbatim>\<open>async\<close> functions that await one store call each. They are modelled
  sequentially, with the collection passed in and returned: a handler is a function from
  the request and the collection before the request to the response and the collection
  after it. A store call that rejects for a reason other than the ones modelled below
  (a lost connection, say) is outside the model.
\<close>

text \<open>
  Modelled from the spec: the document type of the module \<^verbatim>\<open>models/workoutModel\<close>, which
  the controller requires and which is not among the sources. Section 3 of the
  specification gives the entity: title (text), repetition count (integer), load
  (integer), a creation timestamp assigned by the store, and a store-assigned identifier
  (\<^verbatim>\<open>_id\<close> in the source, \<open>oid\<close> here). The identifier type is left open; the timestamp
  is a number of milliseconds.
\<close>

record 'oid workout =
  oid :: 'oid
  title :: string
  reps :: int
  load :: int
  createdAt :: nat

text \<open>Any other JSON value, for the members of a request body that are not fields of the record.\<close>

datatype jsvalue =
  JNull
| JBool bool
| JNum int
| JStr string
| JArr "jsvalue list"
| JObj "(string \<times> jsvalue) list"

text \<open>
  \<^verbatim>\<open>req.body\<close>: a JSON object, typed as the API documents it in the source (title a
  string, reps and load integers). A member that is absent reads as \<^verbatim>\<open>undefined\<close> in the
  source and is \<open>None\<close> here; every member under another name is kept in \<open>body_rest\<close>.
  Bodies whose title, reps or load has another JSON type are not in this type.
\<close>

record body =
  body_title :: "string option"
  body_reps :: "int option"
  body_load :: "int option"
  body_rest :: "(string \<times> jsvalue) list"

text \<open>\<^verbatim>\<open>req\<close>: the handlers read \<^verbatim>\<open>req.params.id\<close> and \<^verbatim>\<open>req.body\<close> only.\<close>

record request =
  params_id :: string
  req_body :: body

text \<open>
  What a handler passes to \<^verbatim>\<open>res.status(...).json(...)\<close>: the status code and the payload,
  which is \<^verbatim>\<open>{ error: message }\<close>, one record, or an array of records.
\<close>

datatype 'oid payload =
  ErrorJson string
| WorkoutJson "'oid workout"
| WorkoutsJson "'oid workout list"

record 'oid response =
  status :: nat
  json :: "'oid payload"

text \<open>
  What the client receives as the body of the response. \<^verbatim>\<open>res.json\<close> sends the payload
  as the body, except that a response with status 204 (No Content) or 304 (Not Modified)
  goes out without a body, whatever payload was passed. This is HTTP and Express's
  \<^verbatim>\<open>res.send\<close>, neither of them code of this repository; the API comment of the delete
  route in the source says the same of its 204:
  \<^verbatim>\<open>No content, workout deleted successfully\<close>.
\<close>

definition sent_body :: "'oid response \<Rightarrow> 'oid payload option" where
  "sent_body res = (if status res = 204 \<or> status res = 304 then None else Some (json res))"

text \<open>The errors with which the store rejects a \<^verbatim>\<open>create\<close>.\<close>

datatype store_error =
  ValidationError "string list"
| DuplicateKey

text \<open>
  What the Mongoose library supplies to the handlers, taken as parameters:
  \<^verbatim>\<open>mongoose.Types.ObjectId.isValid\<close>, the cast of an identifier string to the store's
  identifier type that a query on \<^verbatim>\<open>_id\<close> performs, and the \<^verbatim>\<open>message\<close> of an error object.
\<close>

record 'oid mongoose =
  isValid :: "string \<Rightarrow> bool"
  castObjectId :: "string \<Rightarrow> 'oid"
  message :: "store_error \<Rightarrow> string"

section \<open>The store\<close>

text \<open>
  The collection is the list of its records, in insertion order.

  Modelled from the spec: the operations of the \<^verbatim>\<open>Workout\<close> model (module
  \<^verbatim>\<open>models/workoutModel\<close> and the document store behind it, neither among the sources).
  Section 6 of the specification names them: find-all-sorted, find-by-id, create,
  find-and-delete and find-and-update-with-merge, keyed by the store's identifier type.
\<close>

type_synonym 'oid collection = "'oid workout list"

text \<open>
  Modelled from the spec: \<^verbatim>\<open>Workout.find({})\<close>, every record of the collection (section 4.1).
\<close>

definition find_all :: "'oid collection \<Rightarrow> 'oid workout list" where
  "find_all db = db"

text \<open>
  Modelled from the spec: \<^verbatim>\<open>.sort({ key: dir })\<close> on a query result: ascending by the key
  for a positive direction, descending for a negative one (section 4.1: ordered by
  creation time, most recent first, for the direction \<open>-1\<close> the handler passes). The
  order among records with equal keys is the one this definition happens to give.
\<close>

definition sort_query :: "('a \<Rightarrow> 'k::linorder) \<Rightarrow> int \<Rightarrow> 'a list \<Rightarrow> 'a list" where
  "sort_query key dir xs = (if dir < 0 then rev (sort_key key xs) else sort_key key xs)"

text \<open>
  Modelled from the spec: \<^verbatim>\<open>Workout.findById(id)\<close>, the record with that identifier, or
  \<^verbatim>\<open>null\<close> (\<open>None\<close>) when there is none (section 4.2).
\<close>

fun findById :: "'oid \<Rightarrow> 'oid collection \<Rightarrow> 'oid workout option" where
  "findById i [] = None"
| "findById i (w # ws) = (if oid w = i then Some w else findById i ws)"

text \<open>
  Modelled from the spec: the required fields of the schema, in the order title, reps, load
  (section 3: title, repetition count and load must be present at creation time, and
  nothing else is enforced). The result lists the paths that are missing.
\<close>

definition missing_paths :: "string option \<Rightarrow> int option \<Rightarrow> int option \<Rightarrow> string list" where
  "missing_paths t r l =
     (if t = None then [''title''] else []) @
     (if r = None then [''reps''] else []) @
     (if l = None then [''load''] else [])"

text \<open>
  Modelled from the spec: \<^verbatim>\<open>Workout.create({ title, load, reps })\<close> (section 4.3). The
  identifier the store generates for the new record and the time of the request are
  inputs (\<open>newId\<close>, \<open>now\<close>). The call is rejected, and nothing is written, when a required
  field is missing or when the identifier is already in use (identifiers identify
  records); otherwise the new record holds the three fields as given and is added to the
  collection.
\<close>

definition Workout_create ::
  "'oid \<Rightarrow> nat \<Rightarrow> string option \<Rightarrow> int option \<Rightarrow> int option \<Rightarrow> 'oid collection
     \<Rightarrow> store_error + ('oid workout \<times> 'oid collection)" where
  "Workout_create newId now t l r db =
     (case (t, l, r) of
        (Some t', Some l', Some r') \<Rightarrow>
          if newId \<in> set (map oid db) then Inl DuplicateKey
          else (let w = \<lparr>oid = newId, title = t', reps = r', load = l', createdAt = now\<rparr>
                in Inr (w, db @ [w]))
      | _ \<Rightarrow> Inl (ValidationError (missing_paths t r l)))"

text \<open>
  Modelled from the spec: \<^verbatim>\<open>Workout.findOneAndDelete({ _id: id })\<close> (section 4.4): the
  first record with that identifier is removed and returned; \<^verbatim>\<open>null\<close> and an unchanged
  collection when there is none.
\<close>

fun findOneAndDelete :: "'oid \<Rightarrow> 'oid collection \<Rightarrow> 'oid workout option \<times> 'oid collection" where
  "findOneAndDelete i [] = (None, [])"
| "findOneAndDelete i (w # ws) =
     (if oid w = i then (Some w, ws)
      else (case findOneAndDelete i ws of (found, ws') \<Rightarrow> (found, w # ws')))"

text \<open>
  Modelled from the spec: the merge of an update document into a record (section 4.5:
  replaces only the provided fields). Of title, reps and load, the fields the API
  documents for the body of an update, one that the update gives is set and one that it
  omits is kept; the identifier and the creation time stay, and the members of
  \<open>body_rest\<close> are dropped.
\<close>

definition apply_update :: "body \<Rightarrow> 'oid workout \<Rightarrow> 'oid workout" where
  "apply_update b w =
     w\<lparr>title := (case body_title b of Some t \<Rightarrow> t | None \<Rightarrow> title w),
       reps := (case body_reps b of Some r \<Rightarrow> r | None \<Rightarrow> reps w),
       load := (case body_load b of Some l \<Rightarrow> l | None \<Rightarrow> load w)\<rparr>"

text \<open>
  Modelled from the spec: \<^verbatim>\<open>Workout.findOneAndUpdate({ _id: id }, update, { new: true })\<close>
  (section 4.5): the first record with that identifier is replaced in place by its merge
  with the update, and the merged record is returned (\<^verbatim>\<open>new: true\<close>); \<^verbatim>\<open>null\<close> and an
  unchanged collection when there is none.
\<close>

fun findOneAndUpdate ::
  "'oid \<Rightarrow> body \<Rightarrow> 'oid collection \<Rightarrow> 'oid workout option \<times> 'oid collection" where
  "findOneAndUpdate i b [] = (None, [])"
| "findOneAndUpdate i b (w # ws) =
     (if oid w = i then (Some (apply_update b w), apply_update b w # ws)
      else (case findOneAndUpdate i b ws of (found, ws') \<Rightarrow> (found, w # ws')))"

section \<open>The handlers\<close>

text \<open>
  \<^verbatim>\<open>getWorkouts\<close>: \<^verbatim>\<open>Workout.find({}).sort({ createdAt: -1 })\<close>, then status 200 with the
  result.
\<close>

definition getWorkouts :: "request \<Rightarrow> 'oid collection \<Rightarrow> 'oid response \<times> 'oid collection" where
  "getWorkouts req db =
     (let workouts = sort_query createdAt (- 1) (find_all db)
      in (\<lparr>status = 200, json = WorkoutsJson workouts\<rparr>, db))"

text \<open>
  \<^verbatim>\<open>getWorkout\<close>: 404 when the identifier is not valid, 404 when \<^verbatim>\<open>findById\<close> gives
  \<^verbatim>\<open>null\<close>, 200 with the record otherwise.
\<close>

definition getWorkout ::
  "'oid mongoose \<Rightarrow> request \<Rightarrow> 'oid collection \<Rightarrow> 'oid response \<times> 'oid collection" where
  "getWorkout M req db =
     (let id = params_id req in
      if \<not> isValid M id then (\<lparr>status = 404, json = ErrorJson ''No such workout''\<rparr>, db)
      else
        (case findById (castObjectId M id) db of
           None \<Rightarrow> (\<lparr>status = 404, json = ErrorJson ''No such workout''\<rparr>, db)
         | Some workout \<Rightarrow> (\<lparr>status = 200, json = WorkoutJson workout\<rparr>, db)))"

text \<open>
  \<^verbatim>\<open>createWorkout\<close>: reads title, load and reps from the body, calls \<^verbatim>\<open>Workout.create\<close>
  with these three; 201 with the new record, or, in the \<^verbatim>\<open>catch\<close> branch, 400 with the
  error's message.
\<close>

definition createWorkout ::
  "'oid mongoose \<Rightarrow> 'oid \<Rightarrow> nat \<Rightarrow> request \<Rightarrow> 'oid collection
     \<Rightarrow> 'oid response \<times> 'oid collection" where
  "createWorkout M newId now req db =
     (let t = body_title (req_body req);
          l = body_load (req_body req);
          r = body_reps (req_body req)
      in
        (case Workout_create newId now t l r db of
           Inr (workout, db') \<Rightarrow> (\<lparr>status = 201, json = WorkoutJson workout\<rparr>, db')
         | Inl error \<Rightarrow> (\<lparr>status = 400, json = ErrorJson (message M error)\<rparr>, db)))"

text \<open>
  \<^verbatim>\<open>deleteWorkout\<close>: 400 when the identifier is not valid, 400 when
  \<^verbatim>\<open>findOneAndDelete\<close> gives \<^verbatim>\<open>null\<close>, otherwise \<^verbatim>\<open>res.status(204).json(workout)\<close>.
\<close>

definition deleteWorkout ::
  "'oid mongoose \<Rightarrow> request \<Rightarrow> 'oid collection \<Rightarrow> 'oid response \<times> 'oid collection" where
  "deleteWorkout M req db =
     (let id = params_id req in
      if \<not> isValid M id then (\<lparr>status = 400, json = ErrorJson ''No such workout''\<rparr>, db)
      else
        (case findOneAndDelete (castObjectId M id) db of
           (None, db') \<Rightarrow> (\<lparr>status = 400, json = ErrorJson ''No such workout''\<rparr>, db')
         | (Some workout, db') \<Rightarrow> (\<lparr>status = 204, json = WorkoutJson workout\<rparr>, db')))"

text \<open>
  \<^verbatim>\<open>updateWorkout\<close>: 400 when the identifier is not valid; otherwise
  \<^verbatim>\<open>findOneAndUpdate\<close> with a copy of the whole body as the update; 400 when it gives
  \<^verbatim>\<open>null\<close>, 200 with the updated record otherwise.
\<close>

definition updateWorkout ::
  "'oid mongoose \<Rightarrow> request \<Rightarrow> 'oid collection \<Rightarrow> 'oid response \<times> 'oid collection" where
  "updateWorkout M req db =
     (let id = params_id req in
      if \<not> isValid M id then (\<lparr>status = 400, json = ErrorJson ''No such workout''\<rparr>, db)
      else
        (case findOneAndUpdate (castObjectId M id) (req_body req) db of
           (None, db') \<Rightarrow> (\<lparr>status = 400, json = ErrorJson ''No such workout''\<rparr>, db')
         | (Some workout, db') \<Rightarrow> (\<lparr>status = 200, json = WorkoutJson workout\<rparr>, db')))"

section \<open>The router\<close>

text \<open>
  The router mounts the handlers on \<^verbatim>\<open>'/'\<close> and \<^verbatim>\<open>'/:id'\<close>:
  \<^verbatim>\<open>get('/')\<close>, \<^verbatim>\<open>get('/:id')\<close>, \<^verbatim>\<open>post('/')\<close>, \<^verbatim>\<open>delete('/:id')\<close>, \<^verbatim>\<open>patch('/:id')\<close>.
  \<open>None\<close> stands for a method and path that the router does not mount.
\<close>

datatype http_method = GET | POST | DELETE | PATCH

datatype route = Root | ById

fun router ::
  "'oid mongoose \<Rightarrow> 'oid \<Rightarrow> nat \<Rightarrow> http_method \<Rightarrow> route \<Rightarrow> request \<Rightarrow> 'oid collection
     \<Rightarrow> ('oid response \<times> 'oid collection) option" where
  "router M newId now GET Root req db = Some (getWorkouts req db)"
| "router M newId now GET ById req db = Some (getWorkout M req db)"
| "router M newId now POST Root req db = Some (createWorkout M newId now req db)"
| "router M newId now DELETE ById req db = Some (deleteWorkout M req db)"
| "router M newId now PATCH ById req db = Some (updateWorkout M req db)"
| "router M newId now _ _ req db = None"

section \<open>Example data\<close>

text \<open>
  A concrete library and collection on which the theorems below are run. Identifiers are
  strings of 24 lower-case hexadecimal digits, cast to themselves.
\<close>

definition is_hex24 :: "string \<Rightarrow> bool" where
  "is_hex24 s = (length s = 24 \<and> list_all (\<lambda>c. c \<in> set ''0123456789abcdef'') s)"

definition render_error :: "store_error \<Rightarrow> string" where
  "render_error e =
     (case e of ValidationError ps \<Rightarrow> ''missing: '' @ concat ps | DuplicateKey \<Rightarrow> ''duplicate key'')"

definition example_driver :: "string mongoose" where
  "example_driver = \<lparr>isValid = is_hex24, castObjectId = (\<lambda>s. s), message = render_error\<rparr>"

definition pushups :: "string workout" where
  "pushups = \<lparr>oid = ''65a000000000000000000001'', title = ''Push ups'', reps = 40, load = 5,
     createdAt = 1000\<rparr>"

definition squats :: "string workout" where
  "squats = \<lparr>oid = ''65a000000000000000000002'', title = ''Squats'', reps = 10, load = 60,
     createdAt = 3000\<rparr>"

definition rows :: "string workout" where
  "rows = \<lparr>oid = ''65a000000000000000000003'', title = ''Rows'', reps = 8, load = 45,
     createdAt = 2000\<rparr>"

definition planks :: "string workout" where
  "planks = \<lparr>oid = ''65a000000000000000000004'', title = ''Planks'', reps = 3, load = 0,
     createdAt = 4000\<rparr>"

definition example_db :: "string collection" where
  "example_db = [pushups, squats, rows]"

definition no_body :: body where
  "no_body = \<lparr>body_title = None, body_reps = None, body_load = None, body_rest = []\<rparr>"

definition planks_body :: body where
  "planks_body = \<lparr>body_title = Some ''Planks'', body_reps = Some 3, body_load = Some 0,
     body_rest = [(''owner'', JStr ''me'')]\<rparr>"

definition request_for :: "string \<Rightarrow> body \<Rightarrow> request" where
  "request_for i b = \<lparr>params_id = i, req_body = b\<rparr>"

lemmas fixtures = example_driver_def example_db_def pushups_def squats_def rows_def planks_def
  request_for_def planks_body_def no_body_def is_hex24_def render_error_def

section \<open>Facts about the store\<close>

lemma findById_None_iff: "findById i db = None \<longleftrightarrow> i \<notin> oid ` set db"
  by (induction db) auto

lemma findById_Some_mem: "findById i db = Some w \<Longrightarrow> w \<in> set db \<and> oid w = i"
  by (induction db) (auto split: if_splits)

lemma findById_distinct:
  "distinct (map oid db) \<Longrightarrow> w \<in> set db \<Longrightarrow> findById (oid w) db = Some w"
  by (induction db) (auto simp: rev_image_eqI)

lemma findOneAndDelete_fst: "fst (findOneAndDelete i db) = findById i db"
  by (induction db) (auto split: prod.splits)

lemma findOneAndDelete_snd:
  "snd (findOneAndDelete i db) = (case findById i db of None \<Rightarrow> db | Some w \<Rightarrow> remove1 w db)"
  by (induction db) (auto split: prod.splits option.splits dest: findById_Some_mem)

lemma findOneAndDelete_eq:
  "findOneAndDelete i db =
     (findById i db, case findById i db of None \<Rightarrow> db | Some w \<Rightarrow> remove1 w db)"
  by (simp add: prod_eq_iff findOneAndDelete_fst findOneAndDelete_snd)

lemma findOneAndDelete_None: "findById i db = None \<Longrightarrow> findOneAndDelete i db = (None, db)"
  by (simp add: findOneAndDelete_eq)

lemma oid_apply_update: "oid (apply_update b w) = oid w"
  by (simp add: apply_update_def)

lemma findOneAndUpdate_fst:
  "fst (findOneAndUpdate i b db) = map_option (apply_update b) (findById i db)"
  by (induction db) (auto split: prod.splits)

lemma findOneAndUpdate_None: "findById i db = None \<Longrightarrow> snd (findOneAndUpdate i b db) = db"
  by (induction db) (auto split: prod.splits if_splits)

lemma findOneAndUpdate_None_eq: "findById i db = None \<Longrightarrow> findOneAndUpdate i b db = (None, db)"
  by (simp add: prod_eq_iff findOneAndUpdate_fst findOneAndUpdate_None)

lemma map_other_ids:
  "i \<notin> oid ` set db \<Longrightarrow> map (\<lambda>v. if oid v = i then f v else v) db = db"
  by (induction db) auto

lemma findOneAndUpdate_snd_distinct:
  "distinct (map oid db) \<Longrightarrow>
   snd (findOneAndUpdate i b db) = map (\<lambda>v. if oid v = i then apply_update b v else v) db"
  by (induction db) (auto split: prod.splits simp: map_other_ids)

lemma map_oid_replace:
  "oid w' = i \<Longrightarrow> map oid (map (\<lambda>v. if oid v = i then w' else v) db) = map oid db"
  by (induction db) auto

lemma findOneAndUpdate_ids: "map oid (snd (findOneAndUpdate i b db)) = map oid db"
  by (induction db) (auto simp: oid_apply_update split: prod.splits)

lemma findOneAndDelete_ids_distinct:
  "distinct (map oid db) \<Longrightarrow> distinct (map oid (snd (findOneAndDelete i db)))"
proof (induction db)
  case Nil
  then show ?case by simp
next
  case (Cons w ws)
  have "set (snd (findOneAndDelete i ws)) \<subseteq> set ws"
    using set_remove1_subset [of _ ws]
    by (auto simp: findOneAndDelete_snd split: option.splits)
  with Cons show ?case
    by (auto split: prod.splits)
qed

lemma sorted_desc_sort_query:
  assumes "dir < 0"
  shows "sorted_wrt (\<lambda>a b. key b \<le> key a) (sort_query key dir xs)"
proof -
  have "sorted (map key (sort_key key xs))"
    by (rule sorted_sort_key)
  then have "sorted_wrt (\<lambda>a b. key a \<le> key b) (sort_key key xs)"
    by (simp add: sorted_wrt_map)
  then have "sorted_wrt (\<lambda>a b. key b \<le> key a) (rev (sort_key key xs))"
    by (simp add: sorted_wrt_rev)
  with assms show ?thesis
    by (simp add: sort_query_def)
qed

lemma mset_sort_query: "mset (sort_query key dir xs) = mset xs"
  by (simp add: sort_query_def)

text \<open>
  No request makes two records share an identifier: every route keeps the identifiers of
  the collection distinct, and the empty collection has none. The theorems below that
  speak of the record with a given identifier assume this.
\<close>

lemma router_keeps_ids_distinct:
  assumes "router M newId now m rt req db = Some (res, db')"
    and "distinct (map oid db)"
  shows "distinct (map oid db')"
proof (cases m; cases rt)
  assume "m = POST" "rt = Root"
  with assms show ?thesis
    by (auto simp: createWorkout_def Workout_create_def Let_def
        split: option.splits if_splits)
next
  assume "m = DELETE" "rt = ById"
  with assms findOneAndDelete_ids_distinct [of db "castObjectId M (params_id req)"]
  show ?thesis
    by (auto simp: deleteWorkout_def Let_def split: if_splits prod.splits option.splits)
next
  assume "m = PATCH" "rt = ById"
  with assms findOneAndUpdate_ids [of "castObjectId M (params_id req)" "req_body req" db]
  show ?thesis
    by (auto simp: updateWorkout_def Let_def split: if_splits prod.splits option.splits)
qed (use assms in \<open>auto simp: getWorkouts_def getWorkout_def Let_def
        split: if_splits option.splits\<close>)

section \<open>The claims\<close>

text \<open>
  Claim C1. When the body of a create request has title, reps and load and the store
  accepts the record, \<open>createWorkout\<close> answers 201 with the new record; the record's
  title, reps and load are those of the body, its identifier is the one the store
  assigned, no earlier record had it, and the record is the one added to the collection.
\<close>

theorem createWorkout_created:
  assumes "body_title (req_body req) = Some t"
    and "body_reps (req_body req) = Some r"
    and "body_load (req_body req) = Some l"
    and "Workout_create newId now (Some t) (Some l) (Some r) db = Inr (w, db')"
  shows "createWorkout M newId now req db = (\<lparr>status = 201, json = WorkoutJson w\<rparr>, db')
       \<and> title w = t \<and> reps w = r \<and> load w = l
       \<and> oid w = newId \<and> newId \<notin> oid ` set db \<and> db' = db @ [w]"
  using assms
  by (auto simp: createWorkout_def Workout_create_def Let_def split: if_splits)

theorem createWorkout_created_witness:
  "body_title (req_body (request_for [] planks_body)) = Some ''Planks''
   \<and> body_reps (req_body (request_for [] planks_body)) = Some 3
   \<and> body_load (req_body (request_for [] planks_body)) = Some 0
   \<and> Workout_create ''65a000000000000000000004'' 4000 (Some ''Planks'') (Some 0) (Some 3) example_db
        = Inr (planks, example_db @ [planks])
   \<and> createWorkout example_driver ''65a000000000000000000004'' 4000 (request_for [] planks_body)
        example_db
        = (\<lparr>status = 201, json = WorkoutJson planks\<rparr>, example_db @ [planks])
   \<and> title planks = ''Planks'' \<and> reps planks = 3 \<and> load planks = 0
   \<and> oid planks = ''65a000000000000000000004''"
proof -
  have h1: "body_title (req_body (request_for [] planks_body)) = Some ''Planks''"
    and h2: "body_reps (req_body (request_for [] planks_body)) = Some 3"
    and h3: "body_load (req_body (request_for [] planks_body)) = Some 0"
    by (simp_all add: request_for_def planks_body_def)
  have h4: "Workout_create ''65a000000000000000000004'' 4000 (Some ''Planks'') (Some 0) (Some 3)
      example_db = Inr (planks, example_db @ [planks])"
    by (simp add: Workout_create_def Let_def fixtures)
  show ?thesis
    using createWorkout_created [OF h1 h2 h3 h4, of example_driver] h1 h2 h3 h4
    by simp
qed

text \<open>
  Claim C2. \<open>getWorkout\<close> answers 404 with the error payload when the identifier string
  is not valid, and when it is valid and no record of the collection has that
  identifier; when it is valid and a record has that identifier, it answers 200 with
  that record.
\<close>

theorem getWorkout_responses:
  "(\<not> isValid M (params_id req) \<longrightarrow>
      fst (getWorkout M req db) = \<lparr>status = 404, json = ErrorJson ''No such workout''\<rparr>)
   \<and> (isValid M (params_id req) \<and> castObjectId M (params_id req) \<notin> oid ` set db \<longrightarrow>
      fst (getWorkout M req db) = \<lparr>status = 404, json = ErrorJson ''No such workout''\<rparr>)
   \<and> (isValid M (params_id req) \<and> distinct (map oid db) \<and> w \<in> set db
        \<and> oid w = castObjectId M (params_id req) \<longrightarrow>
      fst (getWorkout M req db) = \<lparr>status = 200, json = WorkoutJson w\<rparr>)"
proof (intro conjI impI)
  assume "\<not> isValid M (params_id req)"
  then show "fst (getWorkout M req db) = \<lparr>status = 404, json = ErrorJson ''No such workout''\<rparr>"
    by (simp add: getWorkout_def)
next
  assume "isValid M (params_id req) \<and> castObjectId M (params_id req) \<notin> oid ` set db"
  then have "findById (castObjectId M (params_id req)) db = None"
    by (simp add: findById_None_iff)
  then show "fst (getWorkout M req db) = \<lparr>status = 404, json = ErrorJson ''No such workout''\<rparr>"
    by (simp add: getWorkout_def Let_def)
next
  assume a: "isValid M (params_id req) \<and> distinct (map oid db) \<and> w \<in> set db
        \<and> oid w = castObjectId M (params_id req)"
  then have "findById (castObjectId M (params_id req)) db = Some w"
    using findById_distinct [of db w] by simp
  with a show "fst (getWorkout M req db) = \<lparr>status = 200, json = WorkoutJson w\<rparr>"
    by (simp add: getWorkout_def Let_def)
qed

theorem getWorkout_responses_witness:
  "\<not> isValid example_driver (params_id (request_for ''xyz'' no_body))
   \<and> fst (getWorkout example_driver (request_for ''xyz'' no_body) example_db)
       = \<lparr>status = 404, json = ErrorJson ''No such workout''\<rparr>
   \<and> isValid example_driver (params_id (request_for ''65a000000000000000000009'' no_body))
   \<and> castObjectId example_driver (params_id (request_for ''65a000000000000000000009'' no_body))
       \<notin> oid ` set example_db
   \<and> fst (getWorkout example_driver (request_for ''65a000000000000000000009'' no_body) example_db)
       = \<lparr>status = 404, json = ErrorJson ''No such workout''\<rparr>
   \<and> isValid example_driver (params_id (request_for ''65a000000000000000000003'' no_body))
   \<and> distinct (map oid example_db) \<and> rows \<in> set example_db
   \<and> oid rows = castObjectId example_driver (params_id (request_for ''65a000000000000000000003'' no_body))
   \<and> fst (getWorkout example_driver (request_for ''65a000000000000000000003'' no_body) example_db)
       = \<lparr>status = 200, json = WorkoutJson rows\<rparr>"
proof -
  let ?bad = "request_for ''xyz'' no_body"
  let ?absent = "request_for ''65a000000000000000000009'' no_body"
  let ?present = "request_for ''65a000000000000000000003'' no_body"
  have a: "\<not> isValid example_driver (params_id ?bad)"
    by (simp add: fixtures)
  have b: "isValid example_driver (params_id ?absent)
      \<and> castObjectId example_driver (params_id ?absent) \<notin> oid ` set example_db"
    by (simp add: fixtures)
  have c: "isValid example_driver (params_id ?present) \<and> distinct (map oid example_db)
      \<and> rows \<in> set example_db \<and> oid rows = castObjectId example_driver (params_id ?present)"
    by (simp add: fixtures)
  from a getWorkout_responses [of example_driver ?bad example_db rows]
  have a': "fst (getWorkout example_driver ?bad example_db)
      = \<lparr>status = 404, json = ErrorJson ''No such workout''\<rparr>"
    by blast
  from b getWorkout_responses [of example_driver ?absent example_db rows]
  have b': "fst (getWorkout example_driver ?absent example_db)
      = \<lparr>status = 404, json = ErrorJson ''No such workout''\<rparr>"
    by blast
  from c getWorkout_responses [of example_driver ?present example_db rows]
  have c': "fst (getWorkout example_driver ?present example_db)
      = \<lparr>status = 200, json = WorkoutJson rows\<rparr>"
    by blast
  from a a' b b' c c' show ?thesis
    by blast
qed

text \<open>
  Claim C3. When the identifier string is not valid, or is valid and no record of the
  collection has that identifier, \<open>deleteWorkout\<close> and \<open>updateWorkout\<close> both answer 400
  with the error payload, where \<open>getWorkout\<close> answers 404.
\<close>

theorem delete_update_missing:
  assumes "\<not> isValid M (params_id req) \<or> castObjectId M (params_id req) \<notin> oid ` set db"
  shows "fst (deleteWorkout M req db) = \<lparr>status = 400, json = ErrorJson ''No such workout''\<rparr>
       \<and> fst (updateWorkout M req db) = \<lparr>status = 400, json = ErrorJson ''No such workout''\<rparr>
       \<and> fst (getWorkout M req db) = \<lparr>status = 404, json = ErrorJson ''No such workout''\<rparr>"
proof (cases "isValid M (params_id req)")
  case False
  then show ?thesis
    by (simp add: deleteWorkout_def updateWorkout_def getWorkout_def)
next
  case True
  with assms have "findById (castObjectId M (params_id req)) db = None"
    by (simp add: findById_None_iff)
  then show ?thesis
    by (simp add: deleteWorkout_def updateWorkout_def getWorkout_def Let_def
        findOneAndDelete_None findOneAndUpdate_None_eq)
qed

theorem delete_update_missing_witness:
  "\<not> isValid example_driver (params_id (request_for ''xyz'' planks_body))
   \<and> fst (deleteWorkout example_driver (request_for ''xyz'' planks_body) example_db)
       = \<lparr>status = 400, json = ErrorJson ''No such workout''\<rparr>
   \<and> fst (updateWorkout example_driver (request_for ''xyz'' planks_body) example_db)
       = \<lparr>status = 400, json = ErrorJson ''No such workout''\<rparr>
   \<and> fst (getWorkout example_driver (request_for ''xyz'' planks_body) example_db)
       = \<lparr>status = 404, json = ErrorJson ''No such workout''\<rparr>
   \<and> isValid example_driver (params_id (request_for ''65a000000000000000000009'' planks_body))
   \<and> castObjectId example_driver (params_id (request_for ''65a000000000000000000009'' planks_body))
       \<notin> oid ` set example_db
   \<and> fst (deleteWorkout example_driver (request_for ''65a000000000000000000009'' planks_body)
        example_db)
       = \<lparr>status = 400, json = ErrorJson ''No such workout''\<rparr>
   \<and> fst (updateWorkout example_driver (request_for ''65a000000000000000000009'' planks_body)
        example_db)
       = \<lparr>status = 400, json = ErrorJson ''No such workout''\<rparr>
   \<and> fst (getWorkout example_driver (request_for ''65a000000000000000000009'' planks_body)
        example_db)
       = \<lparr>status = 404, json = ErrorJson ''No such workout''\<rparr>"
proof -
  let ?bad = "request_for ''xyz'' planks_body"
  let ?absent = "request_for ''65a000000000000000000009'' planks_body"
  have a: "\<not> isValid example_driver (params_id ?bad)"
    by (simp add: fixtures)
  have b: "isValid example_driver (params_id ?absent)"
    and c: "castObjectId example_driver (params_id ?absent) \<notin> oid ` set example_db"
    by (simp_all add: fixtures)
  from a have a': "\<not> isValid example_driver (params_id ?bad)
      \<or> castObjectId example_driver (params_id ?bad) \<notin> oid ` set example_db" ..
  from c have c': "\<not> isValid example_driver (params_id ?absent)
      \<or> castObjectId example_driver (params_id ?absent) \<notin> oid ` set example_db" ..
  from a b c delete_update_missing [OF a'] delete_update_missing [OF c']
  show ?thesis
    by blast
qed

text \<open>
  Claim C4. For every collection, \<open>getWorkouts\<close> answers 200 with an array that holds
  exactly the records of the collection (as a multiset; the empty array for the empty
  collection), ordered by creation time from the most recent to the oldest.
\<close>

theorem getWorkouts_all_sorted_desc:
  "\<exists>ws. getWorkouts req db = (\<lparr>status = 200, json = WorkoutsJson ws\<rparr>, db)
        \<and> mset ws = mset db
        \<and> sorted_wrt (\<lambda>a b. createdAt b \<le> createdAt a) ws"
  by (simp add: getWorkouts_def find_all_def mset_sort_query sorted_desc_sort_query)

theorem getWorkouts_all_sorted_desc_witness:
  "getWorkouts (request_for [] no_body) example_db
     = (\<lparr>status = 200, json = WorkoutsJson [squats, rows, pushups]\<rparr>, example_db)
   \<and> mset [squats, rows, pushups] = mset example_db
   \<and> sorted_wrt (\<lambda>a b. createdAt b \<le> createdAt a) [squats, rows, pushups]"
proof -
  have run: "getWorkouts (request_for [] no_body) example_db
      = (\<lparr>status = 200, json = WorkoutsJson [squats, rows, pushups]\<rparr>, example_db)"
    by (simp add: getWorkouts_def find_all_def sort_query_def fixtures)
  from getWorkouts_all_sorted_desc [of "request_for [] no_body" example_db]
  obtain ws where "getWorkouts (request_for [] no_body) example_db
        = (\<lparr>status = 200, json = WorkoutsJson ws\<rparr>, example_db)"
    and props: "mset ws = mset example_db" "sorted_wrt (\<lambda>a b. createdAt b \<le> createdAt a) ws"
    by blast
  with run have "ws = [squats, rows, pushups]"
    by simp
  with run props show ?thesis
    by simp
qed

text \<open>
  Claim C5. When the identifier is valid and a record \<open>w\<close> of the collection has it,
  \<open>updateWorkout\<close> answers 200 with the updated record \<open>w'\<close>: each of title, reps and
  load is the body's value where the body gives one and the value of \<open>w\<close> where the
  body omits it; identifier and creation time are those of \<open>w\<close>; every other record is
  untouched; and \<open>w'\<close> is the record the collection holds under that identifier
  afterwards.
\<close>

theorem updateWorkout_partial:
  assumes "isValid M (params_id req)"
    and "distinct (map oid db)"
    and "w \<in> set db"
    and "oid w = castObjectId M (params_id req)"
  shows "\<exists>w' db'. updateWorkout M req db = (\<lparr>status = 200, json = WorkoutJson w'\<rparr>, db')
       \<and> title w' = (case body_title (req_body req) of Some t \<Rightarrow> t | None \<Rightarrow> title w)
       \<and> reps w' = (case body_reps (req_body req) of Some r \<Rightarrow> r | None \<Rightarrow> reps w)
       \<and> load w' = (case body_load (req_body req) of Some l \<Rightarrow> l | None \<Rightarrow> load w)
       \<and> oid w' = oid w \<and> createdAt w' = createdAt w
       \<and> db' = map (\<lambda>v. if oid v = oid w then w' else v) db
       \<and> findById (oid w) db' = Some w'"
proof -
  let ?i = "castObjectId M (params_id req)"
  let ?w' = "apply_update (req_body req) w"
  let ?db' = "map (\<lambda>v. if oid v = oid w then ?w' else v) db"
  have found: "findById ?i db = Some w"
    using assms findById_distinct [of db w] by simp
  have same: "map (\<lambda>v. if oid v = ?i then apply_update (req_body req) v else v) db = ?db'"
    using assms(2,3,4) by (auto simp: distinct_map inj_on_def)
  have upd: "findOneAndUpdate ?i (req_body req) db = (Some ?w', ?db')"
    using found assms(2) same
    by (simp add: prod_eq_iff findOneAndUpdate_fst findOneAndUpdate_snd_distinct)
  have ids: "map oid ?db' = map oid db"
    by (rule map_oid_replace) (simp add: oid_apply_update)
  have "?w' \<in> set ?db'"
    using assms(3) by force
  moreover have "distinct (map oid ?db')"
    unfolding ids by (rule assms(2))
  ultimately have "findById (oid ?w') ?db' = Some ?w'"
    by (rule findById_distinct [rotated])
  then have after: "findById (oid w) ?db' = Some ?w'"
    by (simp add: oid_apply_update)
  show ?thesis
    using assms(1) upd after
    by (simp add: updateWorkout_def apply_update_def Let_def)
qed

theorem updateWorkout_partial_witness:
  "isValid example_driver
     (params_id (request_for ''65a000000000000000000002'' (no_body\<lparr>body_reps := Some 12\<rparr>)))
   \<and> distinct (map oid example_db) \<and> squats \<in> set example_db
   \<and> oid squats = castObjectId example_driver
        (params_id (request_for ''65a000000000000000000002'' (no_body\<lparr>body_reps := Some 12\<rparr>)))
   \<and> updateWorkout example_driver
        (request_for ''65a000000000000000000002'' (no_body\<lparr>body_reps := Some 12\<rparr>)) example_db
       = (\<lparr>status = 200, json = WorkoutJson (squats\<lparr>reps := 12\<rparr>)\<rparr>,
          [pushups, squats\<lparr>reps := 12\<rparr>, rows])
   \<and> findById (oid squats) [pushups, squats\<lparr>reps := 12\<rparr>, rows] = Some (squats\<lparr>reps := 12\<rparr>)"
proof -
  let ?req = "request_for ''65a000000000000000000002'' (no_body\<lparr>body_reps := Some 12\<rparr>)"
  have h1: "isValid example_driver (params_id ?req)"
    and h2: "distinct (map oid example_db)"
    and h3: "squats \<in> set example_db"
    and h4: "oid squats = castObjectId example_driver (params_id ?req)"
    by (simp_all add: fixtures)
  have run: "updateWorkout example_driver ?req example_db
      = (\<lparr>status = 200, json = WorkoutJson (squats\<lparr>reps := 12\<rparr>)\<rparr>,
         [pushups, squats\<lparr>reps := 12\<rparr>, rows])"
    by (simp add: updateWorkout_def apply_update_def Let_def fixtures)
  from updateWorkout_partial [OF h1 h2 h3 h4]
  obtain w' db' where "updateWorkout example_driver ?req example_db
        = (\<lparr>status = 200, json = WorkoutJson w'\<rparr>, db')"
    and after: "findById (oid squats) db' = Some w'"
    by blast
  with run have "w' = squats\<lparr>reps := 12\<rparr>" "db' = [pushups, squats\<lparr>reps := 12\<rparr>, rows]"
    by simp_all
  with after h1 h2 h3 h4 run show ?thesis
    by simp
qed

text \<open>
  Claim C6. Whenever \<open>Workout.create\<close> rejects the record with an error \<open>e\<close>,
  \<open>createWorkout\<close> answers 400 with \<open>e\<close>'s message as the error payload (and the
  collection is as before); and a body that lacks title, reps or load is rejected so.
\<close>

theorem createWorkout_rejected:
  "(Workout_create newId now (body_title (req_body req)) (body_load (req_body req))
        (body_reps (req_body req)) db = Inl e \<longrightarrow>
      createWorkout M newId now req db = (\<lparr>status = 400, json = ErrorJson (message M e)\<rparr>, db))
   \<and> (body_title (req_body req) = None \<or> body_reps (req_body req) = None
        \<or> body_load (req_body req) = None \<longrightarrow>
      (\<exists>e'. Workout_create newId now (body_title (req_body req)) (body_load (req_body req))
               (body_reps (req_body req)) db = Inl e'
           \<and> createWorkout M newId now req db =
               (\<lparr>status = 400, json = ErrorJson (message M e')\<rparr>, db)))"
  by (auto simp: createWorkout_def Workout_create_def Let_def split: option.splits)

theorem createWorkout_rejected_witness:
  "Workout_create ''65a000000000000000000004'' 4000
      (body_title (req_body (request_for [] (planks_body\<lparr>body_reps := None\<rparr>))))
      (body_load (req_body (request_for [] (planks_body\<lparr>body_reps := None\<rparr>))))
      (body_reps (req_body (request_for [] (planks_body\<lparr>body_reps := None\<rparr>)))) example_db
     = Inl (ValidationError [''reps''])
   \<and> body_reps (req_body (request_for [] (planks_body\<lparr>body_reps := None\<rparr>))) = None
   \<and> createWorkout example_driver ''65a000000000000000000004'' 4000
        (request_for [] (planks_body\<lparr>body_reps := None\<rparr>)) example_db
     = (\<lparr>status = 400, json = ErrorJson (message example_driver (ValidationError [''reps'']))\<rparr>,
        example_db)"
proof -
  let ?req = "request_for [] (planks_body\<lparr>body_reps := None\<rparr>)"
  have h: "Workout_create ''65a000000000000000000004'' 4000 (body_title (req_body ?req))
      (body_load (req_body ?req)) (body_reps (req_body ?req)) example_db
      = Inl (ValidationError [''reps''])"
    by (simp add: Workout_create_def missing_paths_def request_for_def planks_body_def)
  have n: "body_reps (req_body ?req) = None"
    by (simp add: request_for_def)
  from h n createWorkout_rejected [of "''65a000000000000000000004''" 4000 ?req example_db
      "ValidationError [''reps'']" example_driver]
  show ?thesis
    by blast
qed

text \<open>
  Claim C7, as the code has it. When the identifier is valid and a record \<open>w\<close> of the
  collection has it, \<open>deleteWorkout\<close> removes \<open>w\<close> from the collection and answers
  with status 204. It passes \<open>w\<close> to \<^verbatim>\<open>res.json\<close>, but the response is a 204 and is
  sent without a body: the client does not receive the deleted record. No record has
  that identifier afterwards, and \<open>getWorkout\<close> for the same identifier on the
  collection after the delete answers 404.
\<close>

theorem deleteWorkout_no_content_then_getWorkout:
  assumes "isValid M (params_id req)"
    and "distinct (map oid db)"
    and "w \<in> set db"
    and "oid w = castObjectId M (params_id req)"
    and "params_id req' = params_id req"
  shows "deleteWorkout M req db = (\<lparr>status = 204, json = WorkoutJson w\<rparr>, remove1 w db)
       \<and> sent_body (fst (deleteWorkout M req db)) = None
       \<and> set (remove1 w db) = set db - {w}
       \<and> oid w \<notin> oid ` set (remove1 w db)
       \<and> fst (getWorkout M req' (remove1 w db)) =
            \<lparr>status = 404, json = ErrorJson ''No such workout''\<rparr>
       \<and> sent_body (fst (getWorkout M req' (remove1 w db))) =
            Some (ErrorJson ''No such workout'')"
proof -
  let ?i = "castObjectId M (params_id req)"
  have found: "findById ?i db = Some w"
    using assms findById_distinct [of db w] by simp
  then have del: "deleteWorkout M req db = (\<lparr>status = 204, json = WorkoutJson w\<rparr>, remove1 w db)"
    using assms(1) by (simp add: deleteWorkout_def Let_def findOneAndDelete_eq)
  then have nobody: "sent_body (fst (deleteWorkout M req db)) = None"
    by (simp add: sent_body_def)
  have "distinct db"
    using assms(2) by (simp add: distinct_map)
  then have rest: "set (remove1 w db) = set db - {w}"
    by simp
  have gone: "oid w \<notin> oid ` set (remove1 w db)"
    using assms(2,3) rest by (auto simp: distinct_map inj_on_def)
  then have "findById ?i (remove1 w db) = None"
    using assms(4) by (simp add: findById_None_iff)
  then have get: "fst (getWorkout M req' (remove1 w db)) =
        \<lparr>status = 404, json = ErrorJson ''No such workout''\<rparr>"
    using assms(5) by (simp add: getWorkout_def Let_def)
  then have "sent_body (fst (getWorkout M req' (remove1 w db))) =
        Some (ErrorJson ''No such workout'')"
    by (simp add: sent_body_def)
  with del nobody rest gone get show ?thesis
    by simp
qed

theorem deleteWorkout_no_content_then_getWorkout_witness:
  "isValid example_driver (params_id (request_for ''65a000000000000000000002'' no_body))
   \<and> distinct (map oid example_db) \<and> squats \<in> set example_db
   \<and> oid squats = castObjectId example_driver
        (params_id (request_for ''65a000000000000000000002'' no_body))
   \<and> params_id (request_for ''65a000000000000000000002'' planks_body)
       = params_id (request_for ''65a000000000000000000002'' no_body)
   \<and> deleteWorkout example_driver (request_for ''65a000000000000000000002'' no_body) example_db
       = (\<lparr>status = 204, json = WorkoutJson squats\<rparr>, [pushups, rows])
   \<and> sent_body (fst (deleteWorkout example_driver
        (request_for ''65a000000000000000000002'' no_body) example_db)) = None
   \<and> fst (getWorkout example_driver (request_for ''65a000000000000000000002'' planks_body)
        [pushups, rows])
       = \<lparr>status = 404, json = ErrorJson ''No such workout''\<rparr>
   \<and> sent_body (fst (getWorkout example_driver
        (request_for ''65a000000000000000000002'' planks_body) [pushups, rows]))
       = Some (ErrorJson ''No such workout'')"
proof -
  let ?req = "request_for ''65a000000000000000000002'' no_body"
  let ?req' = "request_for ''65a000000000000000000002'' planks_body"
  have h1: "isValid example_driver (params_id ?req)"
    and h2: "distinct (map oid example_db)"
    and h3: "squats \<in> set example_db"
    and h4: "oid squats = castObjectId example_driver (params_id ?req)"
    and h5: "params_id ?req' = params_id ?req"
    by (simp_all add: fixtures)
  have r: "remove1 squats example_db = [pushups, rows]"
    by (simp add: fixtures)
  from deleteWorkout_no_content_then_getWorkout [OF h1 h2 h3 h4 h5] h1 h2 h3 h4 h5
  show ?thesis
    unfolding r by blast
qed

text \<open>
  Claim C7 as the specification words it fails: the deleted record is not in the body of
  the 204 response. Deleting \<open>squats\<close> from the example collection gives status 204
  and a response without a body.
\<close>

theorem deleteWorkout_body_counterexample:
  "isValid example_driver (params_id (request_for ''65a000000000000000000002'' no_body))
   \<and> squats \<in> set example_db
   \<and> oid squats = castObjectId example_driver
        (params_id (request_for ''65a000000000000000000002'' no_body))
   \<and> status (fst (deleteWorkout example_driver
        (request_for ''65a000000000000000000002'' no_body) example_db)) = 204
   \<and> sent_body (fst (deleteWorkout example_driver
        (request_for ''65a000000000000000000002'' no_body) example_db)) = None
   \<and> sent_body (fst (deleteWorkout example_driver
        (request_for ''65a000000000000000000002'' no_body) example_db))
       \<noteq> Some (WorkoutJson squats)"
  by (simp add: deleteWorkout_def sent_body_def Let_def fixtures)

text \<open>
  Claim C8. \<open>getWorkouts\<close> and \<open>getWorkout\<close> return the collection they were given, for
  every request and every collection.
\<close>

theorem reads_leave_store:
  "snd (getWorkouts req db) = db \<and> snd (getWorkout M req db) = db"
  by (simp add: getWorkouts_def getWorkout_def Let_def split: option.splits)

theorem reads_leave_store_witness:
  "snd (getWorkouts (request_for [] no_body) example_db) = example_db
   \<and> snd (getWorkout example_driver (request_for ''65a000000000000000000003'' no_body) example_db)
       = example_db"
  using reads_leave_store [of "request_for [] no_body" example_db example_driver]
    reads_leave_store [of "request_for ''65a000000000000000000003'' no_body" example_db
      example_driver]
  by blast

text \<open>
  Claim C9. Whatever route the router takes, a response with status 400 or 404 comes
  with the collection unchanged.
\<close>

theorem error_response_no_write:
  assumes "router M newId now m rt req db = Some (res, db')"
    and "status res = 400 \<or> status res = 404"
  shows "db' = db"
proof (cases "findById (castObjectId M (params_id req)) db")
  case None
  with assms show ?thesis
    by (cases m; cases rt)
      (auto simp: getWorkouts_def getWorkout_def createWorkout_def deleteWorkout_def
        updateWorkout_def Let_def findOneAndDelete_None findOneAndUpdate_None_eq
        split: if_splits sum.splits)
next
  case (Some w)
  with assms show ?thesis
    by (cases m; cases rt)
      (auto simp: getWorkouts_def getWorkout_def createWorkout_def deleteWorkout_def
        updateWorkout_def Let_def findOneAndDelete_eq prod_eq_iff findOneAndUpdate_fst
        split: if_splits sum.splits prod.splits)
qed

theorem error_response_no_write_witness:
  "router example_driver ''65a000000000000000000004'' 4000 POST Root
      (request_for [] (planks_body\<lparr>body_load := None\<rparr>)) example_db
     = Some (\<lparr>status = 400, json = ErrorJson ''missing: load''\<rparr>, example_db)
   \<and> status \<lparr>status = 400, json = ErrorJson ''missing: load'' :: string payload\<rparr> = 400"
proof -
  have run: "router example_driver ''65a000000000000000000004'' 4000 POST Root
      (request_for [] (planks_body\<lparr>body_load := None\<rparr>)) example_db
     = Some (\<lparr>status = 400, json = ErrorJson ''missing: load''\<rparr>,
         snd (createWorkout example_driver ''65a000000000000000000004'' 4000
           (request_for [] (planks_body\<lparr>body_load := None\<rparr>)) example_db))"
    by (simp add: createWorkout_def Workout_create_def missing_paths_def request_for_def
        planks_body_def example_driver_def render_error_def)
  have st: "status \<lparr>status = 400, json = ErrorJson ''missing: load'' :: string payload\<rparr> = 400
      \<or> status \<lparr>status = 400, json = ErrorJson ''missing: load'' :: string payload\<rparr> = 404"
    by simp
  from error_response_no_write [OF run st] run show ?thesis
    by simp
qed

text \<open>
  Claim C10. \<open>createWorkout\<close> reads title, load and reps of the body and nothing else of
  the request: two requests whose bodies agree on these three get the same response and
  leave the same collection, whatever else their bodies hold.
\<close>

theorem createWorkout_reads_three_fields:
  assumes "body_title (req_body req) = body_title (req_body req')"
    and "body_load (req_body req) = body_load (req_body req')"
    and "body_reps (req_body req) = body_reps (req_body req')"
  shows "createWorkout M newId now req db = createWorkout M newId now req' db"
  using assms by (simp add: createWorkout_def)

theorem createWorkout_reads_three_fields_witness:
  "body_title (req_body (request_for [] planks_body))
     = body_title (req_body (request_for ''abc'' (planks_body\<lparr>body_rest := []\<rparr>)))
   \<and> body_load (req_body (request_for [] planks_body))
     = body_load (req_body (request_for ''abc'' (planks_body\<lparr>body_rest := []\<rparr>)))
   \<and> body_reps (req_body (request_for [] planks_body))
     = body_reps (req_body (request_for ''abc'' (planks_body\<lparr>body_rest := []\<rparr>)))
   \<and> createWorkout example_driver ''65a000000000000000000004'' 4000 (request_for [] planks_body)
        example_db
     = createWorkout example_driver ''65a000000000000000000004'' 4000
         (request_for ''abc'' (planks_body\<lparr>body_rest := []\<rparr>)) example_db"
proof -
  have h1: "body_title (req_body (request_for [] planks_body))
      = body_title (req_body (request_for ''abc'' (planks_body\<lparr>body_rest := []\<rparr>)))"
    and h2: "body_load (req_body (request_for [] planks_body))
      = body_load (req_body (request_for ''abc'' (planks_body\<lparr>body_rest := []\<rparr>)))"
    and h3: "body_reps (req_body (request_for [] planks_body))
      = body_reps (req_body (request_for ''abc'' (planks_body\<lparr>body_rest := []\<rparr>)))"
    by (simp_all add: request_for_def)
  from createWorkout_reads_three_fields [OF h1 h2 h3, of example_driver
      "''65a000000000000000000004''" 4000 example_db] h1 h2 h3
  show ?thesis
    by blast
qed

end
